theory Spec2Isabelle
  imports Main
begin

section \<open>JavaScript values and objects\<close>

text \<open>
  The Button component receives one props object and hands one props object to the
  HeroUI button. A property value is a JavaScript value. The component compares values
  with string literals (the \<^verbatim>\<open>switch\<close>, by strict equality) and tests them
  against \<^verbatim>\<open>undefined\<close> (the parameter defaults); everything else (numbers, event
  handlers, React nodes, objects) it only moves around, so such a value is a reference
  \<open>JSRef\<close> that is equal to itself and to nothing else.
\<close>

datatype jsval = JSUndefined | JSNull | JSBool bool | JSString string | JSRef nat

text \<open>
  An object is a finite map from property names to values. A property can be absent, or
  present with the value \<^verbatim>\<open>undefined\<close>: the two differ for rest and spread
  (a present key is copied), and agree for a read.
\<close>

type_synonym jsobject = "string \<rightharpoonup> jsval"

text \<open>Reading \<^verbatim>\<open>obj.k\<close>: an absent property reads as \<^verbatim>\<open>undefined\<close>.\<close>

definition get_prop :: "jsobject \<Rightarrow> string \<Rightarrow> jsval" where
  "get_prop obj k = (case obj k of None \<Rightarrow> JSUndefined | Some v \<Rightarrow> v)"

text \<open>
  A destructuring default \<^verbatim>\<open>{ k = d }\<close>: the default is taken exactly when the
  value read is \<^verbatim>\<open>undefined\<close> (not for \<^verbatim>\<open>null\<close>, \<^verbatim>\<open>false\<close> or the empty string).
\<close>

definition or_default :: "jsval \<Rightarrow> jsval \<Rightarrow> jsval" where
  "or_default v d = (if v = JSUndefined then d else v)"

text \<open>
  The rest element \<^verbatim>\<open>...props\<close> of the parameter pattern of \<^verbatim>\<open>Button\<close>: the own
  properties of the argument whose keys the pattern has not named.
\<close>

definition rest_props :: "jsobject \<Rightarrow> jsobject" where
  "rest_props p = p |` (- {''variant'', ''size'', ''children'', ''loading''})"

section \<open>The Button component\<close>

text \<open>
  \<^verbatim>\<open>getHeroUIVariant\<close> and \<^verbatim>\<open>getHeroUIColor\<close>: a \<^verbatim>\<open>switch\<close> over four string
  literals with a \<^verbatim>\<open>default\<close> branch, in the order of the source. The parameter is
  annotated \<^verbatim>\<open>string\<close>, which is erased at run time; a value that is not a string
  equals no \<^verbatim>\<open>case\<close> label and takes the \<^verbatim>\<open>default\<close> branch.
\<close>

definition getHeroUIVariant :: "jsval \<Rightarrow> jsval" where
  "getHeroUIVariant customVariant =
     (if customVariant = JSString ''primary'' then JSString ''solid''
      else if customVariant = JSString ''secondary'' then JSString ''flat''
      else if customVariant = JSString ''outline'' then JSString ''bordered''
      else if customVariant = JSString ''danger'' then JSString ''solid''
      else JSString ''solid'')"

definition getHeroUIColor :: "jsval \<Rightarrow> jsval" where
  "getHeroUIColor customVariant =
     (if customVariant = JSString ''primary'' then JSString ''primary''
      else if customVariant = JSString ''secondary'' then JSString ''default''
      else if customVariant = JSString ''outline'' then JSString ''default''
      else if customVariant = JSString ''danger'' then JSString ''danger''
      else JSString ''primary'')"

text \<open>
  A React element: the component it names and the props object it carries. What the
  HeroUI button does with its props is outside the repository.
\<close>

record element =
  elem_type :: string
  elem_props :: jsobject

text \<open>
  \<^verbatim>\<open>Button\<close>. The parameter pattern binds \<^verbatim>\<open>variant\<close>, \<^verbatim>\<open>size\<close>, \<^verbatim>\<open>children\<close>,
  \<^verbatim>\<open>loading\<close> and the rest \<^verbatim>\<open>props\<close>. The JSX element is the object literal
  \<^verbatim>\<open>{ variant: .., color: .., size, isLoading: loading, ...props, children }\<close>:
  the four written attributes first, the spread over them, the child last.
  The body calls no hook and reads no variable other than its parameter and the two
  local functions, so the element is a function of the props object alone. (React keeps
  an element's \<^verbatim>\<open>key\<close> to itself: a props object has no such property.)
\<close>

definition Button :: "jsobject \<Rightarrow> element" where
  "Button p =
     (let variant = or_default (get_prop p ''variant'') (JSString ''primary'');
          size' = or_default (get_prop p ''size'') (JSString ''md'');
          children = get_prop p ''children'';
          loading = or_default (get_prop p ''loading'') (JSBool False);
          props = rest_props p
      in \<lparr> elem_type = ''HeroUIButton'',
           elem_props =
             (map_of [(''variant'', getHeroUIVariant variant),
                      (''color'', getHeroUIColor variant),
                      (''size'', size'),
                      (''isLoading'', loading)]
              ++ props)
             (''children'' \<mapsto> children) \<rparr>)"

text \<open>What the HeroUI button is handed under each of the names the claims speak of.\<close>

abbreviation style_out :: "jsobject \<Rightarrow> jsval option" where
  "style_out p \<equiv> elem_props (Button p) ''variant''"

abbreviation color_out :: "jsobject \<Rightarrow> jsval option" where
  "color_out p \<equiv> elem_props (Button p) ''color''"

abbreviation size_out :: "jsobject \<Rightarrow> jsval option" where
  "size_out p \<equiv> elem_props (Button p) ''size''"

abbreviation busy_out :: "jsobject \<Rightarrow> jsval option" where
  "busy_out p \<equiv> elem_props (Button p) ''isLoading''"

abbreviation children_out :: "jsobject \<Rightarrow> jsval option" where
  "children_out p \<equiv> elem_props (Button p) ''children''"

section \<open>The outgoing props, key by key\<close>

lemma rest_props_apply:
  "rest_props p k =
     (if k \<in> {''variant'', ''size'', ''children'', ''loading''} then None else p k)"
  by (simp add: rest_props_def restrict_map_def)

lemma Button_type: "elem_type (Button p) = ''HeroUIButton''"
  by (simp add: Button_def Let_def)

lemma Button_variant:
  "style_out p =
     Some (getHeroUIVariant (or_default (get_prop p ''variant'') (JSString ''primary'')))"
  by (simp add: Button_def Let_def map_add_def rest_props_apply)

lemma Button_size:
  "size_out p = Some (or_default (get_prop p ''size'') (JSString ''md''))"
  by (simp add: Button_def Let_def map_add_def rest_props_apply)

lemma Button_children: "children_out p = Some (get_prop p ''children'')"
  by (simp add: Button_def Let_def)

lemma Button_color:
  "color_out p =
     (case p ''color'' of
        None \<Rightarrow> Some (getHeroUIColor (or_default (get_prop p ''variant'') (JSString ''primary'')))
      | Some v \<Rightarrow> Some v)"
  by (simp add: Button_def Let_def map_add_def rest_props_apply split: option.split)

lemma Button_isLoading:
  "busy_out p =
     (case p ''isLoading'' of
        None \<Rightarrow> Some (or_default (get_prop p ''loading'') (JSBool False))
      | Some v \<Rightarrow> Some v)"
  by (simp add: Button_def Let_def map_add_def rest_props_apply split: option.split)

lemma Button_other:
  assumes "k \<notin> {''variant'', ''color'', ''size'', ''isLoading'', ''children'', ''loading''}"
  shows "elem_props (Button p) k = p k"
  using assms
  by (simp add: Button_def Let_def map_add_def rest_props_apply split: option.split)

lemma Button_loading_key: "elem_props (Button p) ''loading'' = None"
  by (simp add: Button_def Let_def map_add_def rest_props_apply)

section \<open>The two mapping functions\<close>

lemma getHeroUIVariant_rows:
  "getHeroUIVariant (JSString ''primary'') = JSString ''solid''"
  "getHeroUIVariant (JSString ''secondary'') = JSString ''flat''"
  "getHeroUIVariant (JSString ''outline'') = JSString ''bordered''"
  "getHeroUIVariant (JSString ''danger'') = JSString ''solid''"
  by (simp_all add: getHeroUIVariant_def)

lemma getHeroUIColor_rows:
  "getHeroUIColor (JSString ''primary'') = JSString ''primary''"
  "getHeroUIColor (JSString ''secondary'') = JSString ''default''"
  "getHeroUIColor (JSString ''outline'') = JSString ''default''"
  "getHeroUIColor (JSString ''danger'') = JSString ''danger''"
  by (simp_all add: getHeroUIColor_def)

lemma getHeroUIVariant_default:
  assumes "v \<noteq> JSString ''secondary''" and "v \<noteq> JSString ''outline''"
  shows "getHeroUIVariant v = JSString ''solid''"
  using assms by (simp add: getHeroUIVariant_def)

lemma getHeroUIColor_default:
  assumes "v \<noteq> JSString ''secondary''" and "v \<noteq> JSString ''outline''"
    and "v \<noteq> JSString ''danger''"
  shows "getHeroUIColor v = JSString ''primary''"
  using assms by (simp add: getHeroUIColor_def)

lemma getHeroUIVariant_range:
  "getHeroUIVariant v \<in> {JSString ''solid'', JSString ''flat'', JSString ''bordered''}"
  by (simp add: getHeroUIVariant_def)

text \<open>The value a pattern variable with a default is bound to.\<close>

lemma bound_present:
  assumes "p k = Some v" and "v \<noteq> JSUndefined"
  shows "or_default (get_prop p k) d = v"
  using assms by (simp add: get_prop_def or_default_def)

lemma bound_omitted:
  assumes "get_prop p k = JSUndefined"
  shows "or_default (get_prop p k) d = d"
  using assms by (simp add: or_default_def)

text \<open>
  A property reads as \<^verbatim>\<open>undefined\<close> when it is absent and when it is present with
  that value: either way the request omits it.
\<close>

lemma omitted_iff: "get_prop p k = JSUndefined \<longleftrightarrow> p k = None \<or> p k = Some JSUndefined"
  by (simp add: get_prop_def split: option.split)

section \<open>The scenarios of the repository's tests\<close>

text \<open>
  \<^verbatim>\<open>Button.test.tsx\<close> renders the component over a mock of the HeroUI button that
  shows the props it is handed. Its expectations, read on the model: the default
  render, the danger variant while loading, and the additional props.
\<close>

lemma test_default_props:
  "map (elem_props (Button (map_of [(''children'', JSString ''Default Button'')])))
     [''variant'', ''color'', ''size'', ''children'']
   = [Some (JSString ''solid''), Some (JSString ''primary''), Some (JSString ''md''),
      Some (JSString ''Default Button'')]"
  by (simp add: Button_variant Button_color Button_size Button_children get_prop_def
      or_default_def getHeroUIVariant_rows getHeroUIColor_rows)

lemma test_loading_danger:
  "map (elem_props (Button (map_of [(''variant'', JSString ''danger''),
       (''loading'', JSBool True), (''children'', JSString ''Loading Danger'')])))
     [''isLoading'', ''variant'', ''color'']
   = [Some (JSBool True), Some (JSString ''solid''), Some (JSString ''danger'')]"
  by (simp add: Button_variant Button_color Button_isLoading get_prop_def or_default_def
      getHeroUIVariant_rows getHeroUIColor_rows)

lemma test_additional_props:
  "map (elem_props (Button (map_of [(''data-custom'', JSString ''test-value''),
       (''aria-label'', JSString ''Custom Button''), (''className'', JSString ''custom-class''),
       (''children'', JSString ''Custom Button'')])))
     [''data-custom'', ''aria-label'', ''className'']
   = [Some (JSString ''test-value''), Some (JSString ''Custom Button''),
      Some (JSString ''custom-class'')]"
  by (simp add: Button_other)

section \<open>The intent table\<close>

text \<open>
  Claim C1, as amended. For a render request whose intent is one of the four defined
  values, the style handed to the HeroUI button is the one of the table of section 4.1
  of the specification, whatever else the request holds; the color handed over is the
  one of the table whenever the request has no \<^verbatim>\<open>color\<close> attribute of its own.
\<close>

theorem intent_table:
  "(p ''variant'' = Some (JSString ''primary'') \<longrightarrow>
      style_out p = Some (JSString ''solid'') \<and>
      (p ''color'' = None \<longrightarrow> color_out p = Some (JSString ''primary''))) \<and>
   (p ''variant'' = Some (JSString ''secondary'') \<longrightarrow>
      style_out p = Some (JSString ''flat'') \<and>
      (p ''color'' = None \<longrightarrow> color_out p = Some (JSString ''default''))) \<and>
   (p ''variant'' = Some (JSString ''outline'') \<longrightarrow>
      style_out p = Some (JSString ''bordered'') \<and>
      (p ''color'' = None \<longrightarrow> color_out p = Some (JSString ''default''))) \<and>
   (p ''variant'' = Some (JSString ''danger'') \<longrightarrow>
      style_out p = Some (JSString ''solid'') \<and>
      (p ''color'' = None \<longrightarrow> color_out p = Some (JSString ''danger'')))"
proof -
  have row: "style_out p = Some (getHeroUIVariant (JSString i)) \<and>
             (p ''color'' = None \<longrightarrow> color_out p = Some (getHeroUIColor (JSString i)))"
    if "p ''variant'' = Some (JSString i)" for i
  proof -
    from that have "or_default (get_prop p ''variant'') (JSString ''primary'') = JSString i"
      by (rule bound_present) simp
    then show ?thesis
      by (simp add: Button_variant Button_color)
  qed
  show ?thesis
    using row [of "''primary''"] row [of "''secondary''"] row [of "''outline''"]
      row [of "''danger''"]
    by (simp add: getHeroUIVariant_rows getHeroUIColor_rows)
qed

theorem intent_table_witness:
  "style_out (map_of [(''variant'', JSString ''primary''), (''children'', JSString ''Go'')])
     = Some (JSString ''solid'') \<and>
   color_out (map_of [(''variant'', JSString ''primary''), (''children'', JSString ''Go'')])
     = Some (JSString ''primary'') \<and>
   style_out (map_of [(''variant'', JSString ''secondary''), (''children'', JSString ''Go'')])
     = Some (JSString ''flat'') \<and>
   color_out (map_of [(''variant'', JSString ''secondary''), (''children'', JSString ''Go'')])
     = Some (JSString ''default'') \<and>
   style_out (map_of [(''variant'', JSString ''outline''), (''size'', JSString ''lg''),
                      (''children'', JSString ''Go'')])
     = Some (JSString ''bordered'') \<and>
   color_out (map_of [(''variant'', JSString ''outline''), (''size'', JSString ''lg''),
                      (''children'', JSString ''Go'')])
     = Some (JSString ''default'') \<and>
   style_out (map_of [(''variant'', JSString ''danger''), (''loading'', JSBool True),
                      (''children'', JSString ''Go'')])
     = Some (JSString ''solid'') \<and>
   color_out (map_of [(''variant'', JSString ''danger''), (''loading'', JSBool True),
                      (''children'', JSString ''Go'')])
     = Some (JSString ''danger'')"
  using
    intent_table [of "map_of [(''variant'', JSString ''primary''), (''children'', JSString ''Go'')]"]
    intent_table [of "map_of [(''variant'', JSString ''secondary''), (''children'', JSString ''Go'')]"]
    intent_table [of "map_of [(''variant'', JSString ''outline''), (''size'', JSString ''lg''),
                              (''children'', JSString ''Go'')]"]
    intent_table [of "map_of [(''variant'', JSString ''danger''), (''loading'', JSBool True),
                              (''children'', JSString ''Go'')]"]
  by simp

text \<open>
  Claim C1 as the specification states it fails: the caller of
  \<^verbatim>\<open><Button variant="secondary" color="danger">Go</Button>\<close> has the intent
  \<^verbatim>\<open>secondary\<close>, whose row is (flat, default), and the HeroUI button is handed the
  color \<^verbatim>\<open>danger\<close>, since the spread of the remaining props comes after the
  \<^verbatim>\<open>color\<close> attribute.
\<close>

theorem intent_table_counterexample:
  "map_of [(''variant'', JSString ''secondary''), (''color'', JSString ''danger''),
           (''children'', JSString ''Go'')] ''variant'' = Some (JSString ''secondary'') \<and>
   style_out (map_of [(''variant'', JSString ''secondary''), (''color'', JSString ''danger''),
                      (''children'', JSString ''Go'')]) = Some (JSString ''flat'') \<and>
   color_out (map_of [(''variant'', JSString ''secondary''), (''color'', JSString ''danger''),
                      (''children'', JSString ''Go'')]) = Some (JSString ''danger'') \<and>
   color_out (map_of [(''variant'', JSString ''secondary''), (''color'', JSString ''danger''),
                      (''children'', JSString ''Go'')]) \<noteq> Some (JSString ''default'')"
  by (simp add: Button_variant Button_color get_prop_def or_default_def getHeroUIVariant_rows)

section \<open>The fallback row\<close>

text \<open>
  Claim C2, as amended. For every intent value outside primary, secondary, outline and
  danger (a string, or a value that is no string at all) both mapping functions take
  their default branch and return solid and primary; nothing in them or in the
  component can fail, the result being an element of the HeroUI button for every
  request. A request with such an intent hands over the style solid, and the color
  primary whenever the request has no \<^verbatim>\<open>color\<close> attribute of its own.
\<close>

theorem fallback_row:
  assumes "v \<notin> {JSString ''primary'', JSString ''secondary'', JSString ''outline'',
                JSString ''danger''}"
  shows "getHeroUIVariant v = JSString ''solid'' \<and>
         getHeroUIColor v = JSString ''primary'' \<and>
         elem_type (Button p) = ''HeroUIButton'' \<and>
         (p ''variant'' = Some v \<longrightarrow>
            style_out p = Some (JSString ''solid'') \<and>
            (p ''color'' = None \<longrightarrow> color_out p = Some (JSString ''primary'')))"
proof -
  from assms have sty: "getHeroUIVariant v = JSString ''solid''"
    by (intro getHeroUIVariant_default) auto
  from assms have col: "getHeroUIColor v = JSString ''primary''"
    by (intro getHeroUIColor_default) auto
  have "style_out p = Some (JSString ''solid'') \<and>
        (p ''color'' = None \<longrightarrow> color_out p = Some (JSString ''primary''))"
    if req: "p ''variant'' = Some v"
  proof (cases "v = JSUndefined")
    case True
    with req have "or_default (get_prop p ''variant'') (JSString ''primary'') = JSString ''primary''"
      by (simp add: get_prop_def or_default_def)
    then show ?thesis
      by (simp add: Button_variant Button_color getHeroUIVariant_rows getHeroUIColor_rows)
  next
    case False
    with req have "or_default (get_prop p ''variant'') (JSString ''primary'') = v"
      by (rule bound_present)
    then show ?thesis
      by (simp add: Button_variant Button_color sty col)
  qed
  with sty col show ?thesis
    by (simp add: Button_type)
qed

theorem fallback_row_witness:
  "getHeroUIVariant (JSString ''ghost'') = JSString ''solid'' \<and>
   getHeroUIColor (JSString ''ghost'') = JSString ''primary'' \<and>
   style_out (map_of [(''variant'', JSString ''ghost''), (''children'', JSString ''Go'')])
     = Some (JSString ''solid'') \<and>
   color_out (map_of [(''variant'', JSString ''ghost''), (''children'', JSString ''Go'')])
     = Some (JSString ''primary'')"
  using fallback_row [of "JSString ''ghost''"
      "map_of [(''variant'', JSString ''ghost''), (''children'', JSString ''Go'')]"]
  by simp

text \<open>
  Claim C2 as the specification states it fails for the component:
  \<^verbatim>\<open><Button variant="ghost" color="danger">Go</Button>\<close> has an intent outside the
  four, and the color handed over is \<^verbatim>\<open>danger\<close>, not the \<^verbatim>\<open>primary\<close> of the
  fallback row.
\<close>

theorem fallback_row_counterexample:
  "JSString ''ghost'' \<noteq> JSString ''primary'' \<and>
   JSString ''ghost'' \<noteq> JSString ''secondary'' \<and>
   JSString ''ghost'' \<noteq> JSString ''outline'' \<and>
   JSString ''ghost'' \<noteq> JSString ''danger'' \<and>
   map_of [(''variant'', JSString ''ghost''), (''color'', JSString ''danger''),
           (''children'', JSString ''Go'')] ''variant'' = Some (JSString ''ghost'') \<and>
   color_out (map_of [(''variant'', JSString ''ghost''), (''color'', JSString ''danger''),
                      (''children'', JSString ''Go'')]) = Some (JSString ''danger'') \<and>
   color_out (map_of [(''variant'', JSString ''ghost''), (''color'', JSString ''danger''),
                      (''children'', JSString ''Go'')]) \<noteq> Some (JSString ''primary'')"
  by (simp add: Button_color)

section \<open>The busy flag\<close>

text \<open>
  Claim C3, as amended. For every render request that has no \<^verbatim>\<open>isLoading\<close>
  attribute of its own, the busy flag handed to the HeroUI button is the loading input:
  true for \<^verbatim>\<open>loading = true\<close>, false for \<^verbatim>\<open>loading = false\<close>, and false when
  \<^verbatim>\<open>loading\<close> is omitted (absent, or passed as \<^verbatim>\<open>undefined\<close>).
\<close>

theorem busy_flag_is_loading:
  assumes "p ''isLoading'' = None"
  shows "(p ''loading'' = Some (JSBool b) \<longrightarrow> busy_out p = Some (JSBool b)) \<and>
         (p ''loading'' = None \<longrightarrow> busy_out p = Some (JSBool False)) \<and>
         (p ''loading'' = Some JSUndefined \<longrightarrow> busy_out p = Some (JSBool False))"
  using assms
  by (auto simp: Button_isLoading get_prop_def or_default_def)

theorem busy_flag_is_loading_witness:
  "busy_out (map_of [(''variant'', JSString ''danger''), (''loading'', JSBool True),
                     (''children'', JSString ''Go'')]) = Some (JSBool True) \<and>
   busy_out (map_of [(''loading'', JSBool False), (''children'', JSString ''Go'')])
     = Some (JSBool False) \<and>
   busy_out (map_of [(''children'', JSString ''Go'')]) = Some (JSBool False) \<and>
   busy_out (map_of [(''loading'', JSUndefined), (''children'', JSString ''Go'')])
     = Some (JSBool False)"
  using
    busy_flag_is_loading [of "map_of [(''variant'', JSString ''danger''),
        (''loading'', JSBool True), (''children'', JSString ''Go'')]" True]
    busy_flag_is_loading [of "map_of [(''loading'', JSBool False),
        (''children'', JSString ''Go'')]" False]
    busy_flag_is_loading [of "map_of [(''children'', JSString ''Go'')]"]
    busy_flag_is_loading [of "map_of [(''loading'', JSUndefined),
        (''children'', JSString ''Go'')]"]
  by simp

text \<open>
  Claim C3 as the specification states it fails:
  \<^verbatim>\<open><Button loading isLoading={false}>Go</Button>\<close> has \<^verbatim>\<open>loading = true\<close>
  and hands over the busy flag false, the caller's own \<^verbatim>\<open>isLoading\<close> being spread
  over the one the component wrote.
\<close>

theorem busy_flag_counterexample:
  "map_of [(''loading'', JSBool True), (''isLoading'', JSBool False),
           (''children'', JSString ''Go'')] ''loading'' = Some (JSBool True) \<and>
   busy_out (map_of [(''loading'', JSBool True), (''isLoading'', JSBool False),
                     (''children'', JSString ''Go'')]) = Some (JSBool False) \<and>
   busy_out (map_of [(''loading'', JSBool True), (''isLoading'', JSBool False),
                     (''children'', JSString ''Go'')]) \<noteq> Some (JSBool True)"
  by (simp add: Button_isLoading)

section \<open>The size\<close>

text \<open>
  Claim C4. For every size value among sm, md and lg, and every intent (the rest of the
  request is arbitrary), the size handed to the HeroUI button is the input size.
\<close>

theorem size_identity:
  assumes "s \<in> {''sm'', ''md'', ''lg''}" and "p ''size'' = Some (JSString s)"
  shows "size_out p = Some (JSString s)"
proof -
  from assms(2) have "or_default (get_prop p ''size'') (JSString ''md'') = JSString s"
    by (rule bound_present) simp
  then show ?thesis
    by (simp add: Button_size)
qed

theorem size_identity_witness:
  "size_out (map_of [(''size'', JSString ''sm''), (''children'', JSString ''Go'')])
     = Some (JSString ''sm'') \<and>
   size_out (map_of [(''variant'', JSString ''secondary''), (''size'', JSString ''md''),
                     (''children'', JSString ''Go'')]) = Some (JSString ''md'') \<and>
   size_out (map_of [(''variant'', JSString ''outline''), (''size'', JSString ''lg''),
                     (''children'', JSString ''Go'')]) = Some (JSString ''lg'')"
  using
    size_identity [of "''sm''" "map_of [(''size'', JSString ''sm''),
        (''children'', JSString ''Go'')]"]
    size_identity [of "''md''" "map_of [(''variant'', JSString ''secondary''),
        (''size'', JSString ''md''), (''children'', JSString ''Go'')]"]
    size_identity [of "''lg''" "map_of [(''variant'', JSString ''outline''),
        (''size'', JSString ''lg''), (''children'', JSString ''Go'')]"]
  by simp

section \<open>The defaults\<close>

text \<open>
  Claim C5, as amended. When a render request omits intent, size and loading (each
  absent, or passed as \<^verbatim>\<open>undefined\<close>), the HeroUI button is handed the style solid
  and the size md; it is handed the color primary whenever the request has no
  \<^verbatim>\<open>color\<close> attribute of its own, and the busy flag false whenever it has no
  \<^verbatim>\<open>isLoading\<close> attribute of its own.
\<close>

theorem defaults_when_omitted:
  assumes "get_prop p ''variant'' = JSUndefined"
    and "get_prop p ''size'' = JSUndefined"
    and "get_prop p ''loading'' = JSUndefined"
  shows "style_out p = Some (JSString ''solid'') \<and>
         size_out p = Some (JSString ''md'') \<and>
         (p ''color'' = None \<longrightarrow> color_out p = Some (JSString ''primary'')) \<and>
         (p ''isLoading'' = None \<longrightarrow> busy_out p = Some (JSBool False))"
proof -
  have v: "or_default (get_prop p ''variant'') (JSString ''primary'') = JSString ''primary''"
    using assms(1) by (rule bound_omitted)
  have s: "or_default (get_prop p ''size'') (JSString ''md'') = JSString ''md''"
    using assms(2) by (rule bound_omitted)
  have l: "or_default (get_prop p ''loading'') (JSBool False) = JSBool False"
    using assms(3) by (rule bound_omitted)
  have "style_out p = Some (JSString ''solid'')"
    by (simp add: Button_variant v getHeroUIVariant_rows)
  moreover have "size_out p = Some (JSString ''md'')"
    by (simp add: Button_size s)
  moreover have "color_out p = Some (JSString ''primary'')" if "p ''color'' = None"
    using that by (simp add: Button_color v getHeroUIColor_rows)
  moreover have "busy_out p = Some (JSBool False)" if "p ''isLoading'' = None"
    using that by (simp add: Button_isLoading l)
  ultimately show ?thesis
    by blast
qed

theorem defaults_when_omitted_witness:
  "style_out (map_of [(''children'', JSString ''Go'')]) = Some (JSString ''solid'') \<and>
   color_out (map_of [(''children'', JSString ''Go'')]) = Some (JSString ''primary'') \<and>
   size_out (map_of [(''children'', JSString ''Go'')]) = Some (JSString ''md'') \<and>
   busy_out (map_of [(''children'', JSString ''Go'')]) = Some (JSBool False)"
  using defaults_when_omitted [of "map_of [(''children'', JSString ''Go'')]"]
  by (simp add: get_prop_def)

text \<open>
  Claim C5 as the specification states it fails:
  \<^verbatim>\<open><Button color="danger">Go</Button>\<close> omits intent, size and loading, and the
  color handed over is \<^verbatim>\<open>danger\<close>.
\<close>

theorem defaults_counterexample:
  "map_of [(''color'', JSString ''danger''), (''children'', JSString ''Go'')] ''variant'' = None \<and>
   map_of [(''color'', JSString ''danger''), (''children'', JSString ''Go'')] ''size'' = None \<and>
   map_of [(''color'', JSString ''danger''), (''children'', JSString ''Go'')] ''loading'' = None \<and>
   color_out (map_of [(''color'', JSString ''danger''), (''children'', JSString ''Go'')])
     = Some (JSString ''danger'') \<and>
   color_out (map_of [(''color'', JSString ''danger''), (''children'', JSString ''Go'')])
     \<noteq> Some (JSString ''primary'')"
  by (simp add: Button_color)

section \<open>Passthrough attributes\<close>

text \<open>
  Claim C6. Every attribute of the request other than \<^verbatim>\<open>variant\<close>, \<^verbatim>\<open>size\<close>,
  \<^verbatim>\<open>loading\<close> and \<^verbatim>\<open>children\<close> is handed to the HeroUI button under the same key
  with the same value. It takes no part in the mapping: two requests with the same
  intent are handed the same style, whatever their other attributes are, and the same
  color as soon as they agree on the \<^verbatim>\<open>color\<close> attribute itself (which, when present,
  is forwarded like every other passthrough attribute).
\<close>

theorem passthrough_forwarded:
  "(k \<notin> {''variant'', ''size'', ''loading'', ''children''} \<longrightarrow> p k = Some v \<longrightarrow>
      elem_props (Button p) k = Some v) \<and>
   (p ''variant'' = q ''variant'' \<longrightarrow> style_out p = style_out q) \<and>
   (p ''variant'' = q ''variant'' \<longrightarrow> p ''color'' = q ''color'' \<longrightarrow> color_out p = color_out q)"
proof (intro conjI impI)
  assume k: "k \<notin> {''variant'', ''size'', ''loading'', ''children''}" and v: "p k = Some v"
  consider "k = ''color''" | "k = ''isLoading''" | "k \<noteq> ''color''" "k \<noteq> ''isLoading''"
    by blast
  then show "elem_props (Button p) k = Some v"
  proof cases
    case 1
    with v show ?thesis by (simp add: Button_color)
  next
    case 2
    with v show ?thesis by (simp add: Button_isLoading)
  next
    case 3
    with k have "elem_props (Button p) k = p k"
      by (intro Button_other) simp
    with v show ?thesis by simp
  qed
next
  assume "p ''variant'' = q ''variant''"
  then have "get_prop p ''variant'' = get_prop q ''variant''"
    by (simp add: get_prop_def)
  then show "style_out p = style_out q"
    by (simp add: Button_variant)
next
  assume "p ''variant'' = q ''variant''" and c: "p ''color'' = q ''color''"
  then have "get_prop p ''variant'' = get_prop q ''variant''"
    by (simp add: get_prop_def)
  with c show "color_out p = color_out q"
    by (simp add: Button_color split: option.split)
qed

theorem passthrough_forwarded_witness:
  "elem_props (Button (map_of [(''variant'', JSString ''outline''),
       (''data-custom'', JSString ''test-value''), (''onClick'', JSRef 1),
       (''children'', JSString ''Go'')])) ''data-custom'' = Some (JSString ''test-value'') \<and>
   style_out (map_of [(''variant'', JSString ''outline''),
       (''data-custom'', JSString ''test-value''), (''onClick'', JSRef 1),
       (''children'', JSString ''Go'')])
     = style_out (map_of [(''variant'', JSString ''outline''), (''children'', JSString ''Go'')]) \<and>
   color_out (map_of [(''variant'', JSString ''outline''),
       (''data-custom'', JSString ''test-value''), (''onClick'', JSRef 1),
       (''children'', JSString ''Go'')])
     = color_out (map_of [(''variant'', JSString ''outline''), (''children'', JSString ''Go'')])"
  using passthrough_forwarded [of "''data-custom''"
      "map_of [(''variant'', JSString ''outline''), (''data-custom'', JSString ''test-value''),
               (''onClick'', JSRef 1), (''children'', JSString ''Go'')]"
      "JSString ''test-value''"
      "map_of [(''variant'', JSString ''outline''), (''children'', JSString ''Go'')]"]
  by simp

section \<open>The spread comes after the written attributes\<close>

text \<open>
  Claim C8. A \<^verbatim>\<open>color\<close> or \<^verbatim>\<open>isLoading\<close> attribute of the request is what the
  HeroUI button is handed, in place of the color the component mapped and of the busy
  flag it took from \<^verbatim>\<open>loading\<close>. Without such an attribute the mapped color and the
  loading input are handed over; with one of another value they are not, so the color
  column of the table and the busy-flag rule are promised only for requests that carry
  neither key.
\<close>

theorem spread_overrides_mapped:
  "(p ''color'' = Some v \<longrightarrow> color_out p = Some v) \<and>
   (p ''isLoading'' = Some w \<longrightarrow> busy_out p = Some w) \<and>
   (p ''color'' = None \<longrightarrow>
      color_out p =
        Some (getHeroUIColor (or_default (get_prop p ''variant'') (JSString ''primary'')))) \<and>
   (p ''isLoading'' = None \<longrightarrow>
      busy_out p = Some (or_default (get_prop p ''loading'') (JSBool False))) \<and>
   (p ''color'' = Some v \<longrightarrow>
      v \<noteq> getHeroUIColor (or_default (get_prop p ''variant'') (JSString ''primary'')) \<longrightarrow>
      color_out p \<noteq>
        Some (getHeroUIColor (or_default (get_prop p ''variant'') (JSString ''primary'')))) \<and>
   (p ''isLoading'' = Some w \<longrightarrow>
      w \<noteq> or_default (get_prop p ''loading'') (JSBool False) \<longrightarrow>
      busy_out p \<noteq> Some (or_default (get_prop p ''loading'') (JSBool False)))"
  by (simp add: Button_color Button_isLoading)

theorem spread_overrides_mapped_witness:
  "color_out (map_of [(''variant'', JSString ''secondary''), (''color'', JSString ''danger''),
       (''loading'', JSBool False), (''isLoading'', JSBool True),
       (''children'', JSString ''Go'')]) = Some (JSString ''danger'') \<and>
   busy_out (map_of [(''variant'', JSString ''secondary''), (''color'', JSString ''danger''),
       (''loading'', JSBool False), (''isLoading'', JSBool True),
       (''children'', JSString ''Go'')]) = Some (JSBool True) \<and>
   color_out (map_of [(''variant'', JSString ''secondary''), (''color'', JSString ''danger''),
       (''loading'', JSBool False), (''isLoading'', JSBool True),
       (''children'', JSString ''Go'')]) \<noteq> Some (JSString ''default'') \<and>
   busy_out (map_of [(''variant'', JSString ''secondary''), (''color'', JSString ''danger''),
       (''loading'', JSBool False), (''isLoading'', JSBool True),
       (''children'', JSString ''Go'')]) \<noteq> Some (JSBool False) \<and>
   color_out (map_of [(''variant'', JSString ''secondary''), (''loading'', JSBool False),
       (''children'', JSString ''Go'')]) = Some (JSString ''default'') \<and>
   busy_out (map_of [(''variant'', JSString ''secondary''), (''loading'', JSBool False),
       (''children'', JSString ''Go'')]) = Some (JSBool False)"
  using
    spread_overrides_mapped [of
      "map_of [(''variant'', JSString ''secondary''), (''color'', JSString ''danger''),
               (''loading'', JSBool False), (''isLoading'', JSBool True),
               (''children'', JSString ''Go'')]"
      "JSString ''danger''" "JSBool True"]
    spread_overrides_mapped [of
      "map_of [(''variant'', JSString ''secondary''), (''loading'', JSBool False),
               (''children'', JSString ''Go'')]"]
  by (simp add: get_prop_def or_default_def getHeroUIColor_rows)

section \<open>The keys the component consumes\<close>

text \<open>
  Claim C9. The parameter pattern takes \<^verbatim>\<open>variant\<close>, \<^verbatim>\<open>size\<close>, \<^verbatim>\<open>loading\<close> and
  \<^verbatim>\<open>children\<close> out of the request, so the attribute set that the spread forwards has
  none of these four keys, whatever the caller passed under them. The HeroUI button is
  handed no \<^verbatim>\<open>loading\<close> key at all, and its \<^verbatim>\<open>variant\<close> is always one of solid,
  flat and bordered, never an intent name of the caller.
\<close>

theorem caller_keys_consumed:
  "rest_props p ''variant'' = None \<and>
   rest_props p ''size'' = None \<and>
   rest_props p ''loading'' = None \<and>
   rest_props p ''children'' = None \<and>
   elem_props (Button p) ''loading'' = None \<and>
   style_out p \<in> {Some (JSString ''solid''), Some (JSString ''flat''),
                   Some (JSString ''bordered'')} \<and>
   style_out p \<noteq> Some (JSString ''primary'') \<and>
   style_out p \<noteq> Some (JSString ''secondary'') \<and>
   style_out p \<noteq> Some (JSString ''outline'') \<and>
   style_out p \<noteq> Some (JSString ''danger'')"
proof -
  have keys: "rest_props p k = None"
    if "k \<in> {''variant'', ''size'', ''children'', ''loading''}" for k
    using that by (simp only: rest_props_apply if_True)
  have "getHeroUIVariant x \<in> {JSString ''solid'', JSString ''flat'', JSString ''bordered''}"
    for x by (rule getHeroUIVariant_range)
  then have range: "style_out p \<in> {Some (JSString ''solid''), Some (JSString ''flat''),
      Some (JSString ''bordered'')}"
    unfolding Button_variant by blast
  then have "style_out p \<noteq> Some (JSString ''primary'')"
    and "style_out p \<noteq> Some (JSString ''secondary'')"
    and "style_out p \<noteq> Some (JSString ''outline'')"
    and "style_out p \<noteq> Some (JSString ''danger'')"
    by auto
  with range keys [of "''variant''"] keys [of "''size''"] keys [of "''loading''"]
    keys [of "''children''"] Button_loading_key [of p]
  show ?thesis by simp
qed

theorem caller_keys_consumed_witness:
  "rest_props (map_of [(''variant'', JSString ''outline''), (''size'', JSString ''lg''),
       (''loading'', JSBool True), (''onClick'', JSRef 1), (''children'', JSString ''Go'')])
     ''variant'' = None \<and>
   elem_props (Button (map_of [(''variant'', JSString ''outline''), (''size'', JSString ''lg''),
       (''loading'', JSBool True), (''onClick'', JSRef 1), (''children'', JSString ''Go'')]))
     ''loading'' = None \<and>
   style_out (map_of [(''variant'', JSString ''outline''), (''size'', JSString ''lg''),
       (''loading'', JSBool True), (''onClick'', JSRef 1), (''children'', JSString ''Go'')])
     \<noteq> Some (JSString ''outline'')"
  using caller_keys_consumed [of
      "map_of [(''variant'', JSString ''outline''), (''size'', JSString ''lg''),
               (''loading'', JSBool True), (''onClick'', JSRef 1),
               (''children'', JSString ''Go'')]"]
  by simp

section \<open>The content\<close>

text \<open>
  Claim C10. Whatever the intent, the size, the loading flag and the passthrough
  attributes of the request are, its content is handed to the HeroUI button as its
  \<^verbatim>\<open>children\<close>, unchanged.
\<close>

theorem children_verbatim:
  assumes "p ''children'' = Some c"
  shows "children_out p = Some c"
  using assms by (simp add: Button_children get_prop_def)

theorem children_verbatim_witness:
  "children_out (map_of [(''variant'', JSString ''danger''), (''size'', JSString ''lg''),
       (''loading'', JSBool True), (''onClick'', JSRef 1), (''color'', JSString ''success''),
       (''children'', JSRef 2)]) = Some (JSRef 2)"
  using children_verbatim [of
      "map_of [(''variant'', JSString ''danger''), (''size'', JSString ''lg''),
               (''loading'', JSBool True), (''onClick'', JSRef 1),
               (''color'', JSString ''success''), (''children'', JSRef 2)]"
      "JSRef 2"]
  by simp

end
